theory Spec2Isabelle
  imports Complex_Main "HOL-Library.Word"
begin

section \<open>Python values shared by both scripts\<close>

text \<open>
  The two programs verified here are the scripts that \<^verbatim>\<open>setup_kokoro.py\<close> and
  \<^verbatim>\<open>setup_vosk.py\<close> write out: the text-to-speech server \<^verbatim>\<open>kokoro_server.py\<close> and the
  microphone test \<^verbatim>\<open>test_vosk.py\<close>. Their functions are embedded one by one, with the
  source's names; what the server module does when it is started (the lines around
  \<^verbatim>\<open>CORSS(app)\<close> and the \<^verbatim>\<open>__main__\<close> block) is not part of the model. Console output
  of the server is not modelled; console output of the microphone test is, since its
  printed lines are the recognition events.

  A request body is whatever \<^verbatim>\<open>request.get_json()\<close> returns: any JSON value. A Python
  \<^verbatim>\<open>str\<close> is a list of characters (one \<^typ>\<open>char\<close> per character; the functions below
  look only at lengths and at equality with ASCII literals). A Python \<^verbatim>\<open>dict\<close> is an
  association list with distinct keys, read with \<^const>\<open>map_of\<close>.
\<close>

datatype json =
    JNull
  | JBool bool
  | JInt int
  | JFloat rat
  | JStr string
  | JList "json list"
  | JDict "(string \<times> json) list"

text \<open>Exceptions, each with the message that \<^verbatim>\<open>str(e)\<close> gives.\<close>

datatype exn =
    TypeError string
  | RuntimeError string
  | FileNotFoundError string
  | KeyError string
  | AttributeError string
  | LibraryError string  \<comment> \<open>raised inside Flask, json, torch, torchaudio, tempfile, vosk or pyaudio\<close>

fun str :: "exn \<Rightarrow> string" where
  "str (TypeError m) = m"
| "str (RuntimeError m) = m"
| "str (FileNotFoundError m) = m"
| "str (KeyError m) = m"
| "str (AttributeError m) = m"
| "str (LibraryError m) = m"

definition quoted :: "string \<Rightarrow> string" where
  "quoted s = CHR 0x27 # s @ [CHR 0x27]"

fun type_name :: "json \<Rightarrow> string" where
  "type_name JNull = ''NoneType''"
| "type_name (JBool _) = ''bool''"
| "type_name (JInt _) = ''int''"
| "type_name (JFloat _) = ''float''"
| "type_name (JStr _) = ''str''"
| "type_name (JList _) = ''list''"
| "type_name (JDict _) = ''dict''"

text \<open>\<^verbatim>\<open>len(x)\<close>: defined on strings, lists and dicts, a \<^verbatim>\<open>TypeError\<close> on the rest.\<close>

fun py_len :: "json \<Rightarrow> exn + nat" where
  "py_len (JStr s) = Inr (length s)"
| "py_len (JList xs) = Inr (length xs)"
| "py_len (JDict kvs) = Inr (length kvs)"
| "py_len v = Inl (TypeError (''object of type '' @ quoted (type_name v) @ '' has no len()''))"

text \<open>Truth value of a JSON value, as \<^verbatim>\<open>not data\<close> tests it.\<close>

fun truthy :: "json \<Rightarrow> bool" where
  "truthy JNull = False"
| "truthy (JBool b) = b"
| "truthy (JInt i) = (i \<noteq> 0)"
| "truthy (JFloat r) = (r \<noteq> 0)"
| "truthy (JStr s) = (s \<noteq> [])"
| "truthy (JList xs) = (xs \<noteq> [])"
| "truthy (JDict kvs) = (kvs \<noteq> [])"

text \<open>
  \<^verbatim>\<open>'text' in data\<close>: a key test on a dict, a membership test on a list, a substring
  test on a string, a \<^verbatim>\<open>TypeError\<close> on the rest.
\<close>

fun substring :: "string \<Rightarrow> string \<Rightarrow> bool" where
  "substring p [] = (p = [])"
| "substring p (c # s) = (take (length p) (c # s) = p \<or> substring p s)"

fun py_in :: "string \<Rightarrow> json \<Rightarrow> exn + bool" where
  "py_in k (JDict kvs) = Inr (map_of kvs k \<noteq> None)"
| "py_in k (JList xs) = Inr (JStr k \<in> set xs)"
| "py_in k (JStr s) = Inr (substring k s)"
| "py_in k v = Inl (TypeError (''argument of type '' @ quoted (type_name v) @ '' is not iterable''))"

text \<open>\<^verbatim>\<open>data[k]\<close> with a string key \<open>k\<close>.\<close>

fun py_getitem :: "json \<Rightarrow> string \<Rightarrow> exn + json" where
  "py_getitem (JDict kvs) k =
     (case map_of kvs k of Some v \<Rightarrow> Inr v | None \<Rightarrow> Inl (KeyError (quoted k)))"
| "py_getitem (JList xs) k =
     Inl (TypeError ''list indices must be integers or slices, not str'')"
| "py_getitem (JStr s) k =
     Inl (TypeError (''string indices must be integers, not '' @ quoted ''str''))"
| "py_getitem v k =
     Inl (TypeError (quoted (type_name v) @ '' object is not subscriptable''))"

text \<open>\<^verbatim>\<open>data.get(k, d)\<close>: only a dict has the method.\<close>

fun py_get :: "json \<Rightarrow> string \<Rightarrow> json \<Rightarrow> exn + json" where
  "py_get (JDict kvs) k d = Inr (case map_of kvs k of Some v \<Rightarrow> v | None \<Rightarrow> d)"
| "py_get v k d =
     Inl (AttributeError (quoted (type_name v) @ '' object has no attribute '' @ quoted ''get''))"

section \<open>Binary64 arithmetic on non-negative values\<close>

text \<open>
  \<^verbatim>\<open>len(text) * 0.1\<close> and \<^verbatim>\<open>sample_rate * duration\<close> are products of IEEE binary64
  numbers. A non-negative finite binary64 value is written \<open>(m, e)\<close> for \<open>m / 2 ^ e\<close>;
  a product is the exact product rounded to 53 significant bits, ties to even. All values
  that arise are zero or at least \<open>0.1\<close>, and stay far below \<open>2 ^ 1024\<close> for any string
  a process can hold, so neither underflow nor overflow is modelled.
\<close>

type_synonym float64 = "nat \<times> nat"

fun bit_length :: "nat \<Rightarrow> nat" where
  "bit_length n = (if n = 0 then 0 else Suc (bit_length (n div 2)))"

declare bit_length.simps [simp del]

definition round53 :: "nat \<Rightarrow> nat" where
  "round53 n =
     (let k = bit_length n in
      if k \<le> 53 then n
      else
        let s = k - 53; q = n div 2 ^ s; r = n mod 2 ^ s; h = 2 ^ (s - 1)
        in (if h < r \<or> (r = h \<and> odd q) then q + 1 else q) * 2 ^ s)"

definition float_of_nat :: "nat \<Rightarrow> float64" where
  "float_of_nat n = (round53 n, 0)"

definition fmul :: "float64 \<Rightarrow> float64 \<Rightarrow> float64" where
  "fmul x y = (round53 (fst x * fst y), snd x + snd y)"

definition int_of_float :: "float64 \<Rightarrow> nat" where
  "int_of_float x = fst x div 2 ^ snd x"

text \<open>The literal \<^verbatim>\<open>0.1\<close>: \<open>3602879701896397 / 2 ^ 55\<close>.\<close>

definition tenth :: float64 where
  "tenth = (3602879701896397, 55)"

section \<open>The synthesis server (kokoro_server.py)\<close>

text \<open>
  A sample is a float32 by its bit pattern. The state of numpy's global generator is
  the sequence of samples it will hand out from now on (each already converted by
  \<^verbatim>\<open>astype(np.float32)\<close>); \<^verbatim>\<open>np.random.randn(n)\<close> takes the first \<open>n\<close> of them.
\<close>

type_synonym sample = "32 word"

type_synonym generator = "nat \<Rightarrow> sample"

definition randn :: "nat \<Rightarrow> generator \<Rightarrow> sample list \<times> generator" where
  "randn n g = (map g [0..<n], \<lambda>i. g (n + i))"

text \<open>
  What \<^verbatim>\<open>torch.load\<close> returns is \<^verbatim>\<open>None\<close> (the file holds a pickled \<^verbatim>\<open>None\<close>) or
  an object, known by an identifier, on which \<^verbatim>\<open>.eval()\<close> either returns or raises
  (a pickled state dict has no such method).
\<close>

record torch_obj =
  ident :: nat
  eval_raises :: "exn option"

text \<open>
  The process and what it can reach: the globals \<open>model\<close> and \<open>config\<close> (Python's
  \<^verbatim>\<open>None\<close> is \<^const>\<open>None\<close> and \<^const>\<open>JNull\<close>), numpy's generator, the directory of
  temporary files (a file's name is its position in the list), and the two files under
  \<^verbatim>\<open>kokoro_models/\<close>. A file that exists is given by what its reader makes of it:
  \<^verbatim>\<open>json.load\<close> and \<^verbatim>\<open>torch.load\<close> either raise or return a value.
\<close>

datatype file_content = Empty_file | Wav "sample list" nat

record world =
  model :: "torch_obj option"
  config :: json
  rng :: generator
  tmp_files :: "file_content list"
  model_pth :: "(exn + torch_obj option) option"
  config_json :: "(exn + json) option"

text \<open>
  \<^verbatim>\<open>load_model()\<close>. The config is read outside the \<^verbatim>\<open>try\<close>; \<open>model\<close> is assigned
  what \<^verbatim>\<open>torch.load\<close> returned before \<^verbatim>\<open>model.eval()\<close> runs, and on \<^verbatim>\<open>None\<close> that call
  raises \<^verbatim>\<open>AttributeError\<close>; every exception reaches the caller.
\<close>

definition load_model :: "world \<Rightarrow> (exn + unit) \<times> world" where
  "load_model w =
     (case (model_pth w, config_json w) of
        (Some pth, Some cfg) \<Rightarrow>
          (case cfg of
             Inl e \<Rightarrow> (Inl e, w)
           | Inr c \<Rightarrow>
               let w1 = w\<lparr>config := c\<rparr> in
               (case pth of
                  Inl e \<Rightarrow> (Inl e, w1)
                | Inr loaded \<Rightarrow>
                    let w2 = w1\<lparr>model := loaded\<rparr> in
                    (case loaded of
                       None \<Rightarrow>
                         (Inl (AttributeError
                                 (quoted ''NoneType'' @ '' object has no attribute ''
                                    @ quoted ''eval'')), w2)
                     | Some obj \<Rightarrow>
                         (case eval_raises obj of
                            Some e \<Rightarrow> (Inl e, w2)
                          | None \<Rightarrow> (Inr (), w2)))))
      | _ \<Rightarrow>
          (Inl (FileNotFoundError
                  ''Model files not found. Please run setup_kokoro.py first.''), w))"

text \<open>
  \<^verbatim>\<open>synthesize_speech(text, voice_id="default", speed=1.0)\<close>. The arguments
  \<open>voice_id\<close> and \<open>speed\<close> are not read by the body. A raise inside the \<^verbatim>\<open>try\<close> is
  wrapped in a \<^verbatim>\<open>RuntimeError\<close>.
\<close>

definition synthesize_speech ::
  "json \<Rightarrow> json \<Rightarrow> json \<Rightarrow> world \<Rightarrow> (exn + sample list \<times> nat) \<times> world" where
  "synthesize_speech text voice_id speed w =
     (case model w of
        None \<Rightarrow> (Inl (RuntimeError ''Model not loaded''), w)
      | Some _ \<Rightarrow>
          (case py_len text of
             Inl e \<Rightarrow> (Inl (RuntimeError (''Speech synthesis failed: '' @ str e)), w)
           | Inr l \<Rightarrow>
               let sample_rate = 22050;
                   duration = fmul (float_of_nat l) tenth;
                   (audio_data, g) =
                      randn (int_of_float (fmul (float_of_nat sample_rate) duration)) (rng w)
               in (Inr (audio_data, sample_rate), w\<lparr>rng := g\<rparr>)))"

text \<open>A response: \<^verbatim>\<open>jsonify(body), status\<close>, or \<^verbatim>\<open>send_file\<close> of a temporary file.\<close>

datatype response =
    Jsonify "(string \<times> json) list" nat
  | Send_file nat

definition health_check :: "world \<Rightarrow> response" where
  "health_check w =
     Jsonify [(''status'', JStr ''healthy''),
              (''model_loaded'', JBool (model w \<noteq> None)),
              (''version'', JStr ''1.0.0'')] 200"

definition voices :: "json list" where
  "voices =
     [JDict [(''id'', JStr ''default''), (''name'', JStr ''Default Voice''),
             (''language'', JStr ''en-US'')],
      JDict [(''id'', JStr ''female1''), (''name'', JStr ''Female Voice 1''),
             (''language'', JStr ''en-US'')],
      JDict [(''id'', JStr ''male1''), (''name'', JStr ''Male Voice 1''),
             (''language'', JStr ''en-US'')]]"

definition get_voices :: response where
  "get_voices = Jsonify [(''voices'', JList voices)] 200"

text \<open>The ids of the catalog that \<^const>\<open>get_voices\<close> serves.\<close>

fun voice_id_of :: "json \<Rightarrow> json" where
  "voice_id_of (JDict kvs) = (case map_of kvs ''id'' of Some v \<Rightarrow> v | None \<Rightarrow> JNull)"
| "voice_id_of v = JNull"

definition error_response :: "string \<Rightarrow> nat \<Rightarrow> response" where
  "error_response m status = Jsonify [(''error'', JStr m)] status"

text \<open>
  What the library calls of one request do: \<^verbatim>\<open>tempfile.NamedTemporaryFile\<close> and
  \<^verbatim>\<open>torchaudio.save\<close> either return or raise; \<^verbatim>\<open>send_file\<close>, given the name of
  the file just written, returns.
\<close>

record io =
  tmp_error :: "exn option"
  save_error :: "exn option"

text \<open>
  \<^verbatim>\<open>synthesize()\<close>, the handler of \<^verbatim>\<open>POST /synthesize\<close>. The request is what
  \<^verbatim>\<open>request.get_json()\<close> does: raise or return the body. Every exception is caught by
  the handler's \<^verbatim>\<open>except Exception\<close> and becomes a 500. The temporary file is created
  with \<^verbatim>\<open>delete=False\<close>, so leaving the \<^verbatim>\<open>with\<close> block closes it and does not remove it.
\<close>

definition store_and_send :: "io \<Rightarrow> sample list \<Rightarrow> nat \<Rightarrow> world \<Rightarrow> response \<times> world" where
  "store_and_send io audio_data sample_rate w =
     (case tmp_error io of
        Some e \<Rightarrow> (error_response (str e) 500, w)
      | None \<Rightarrow>
          let name = length (tmp_files w);
              w1 = w\<lparr>tmp_files := tmp_files w @ [Empty_file]\<rparr>
          in (case save_error io of
                Some e \<Rightarrow> (error_response (str e) 500, w1)
              | None \<Rightarrow>
                  (Send_file name,
                   w1\<lparr>tmp_files := (tmp_files w1)[name := Wav audio_data sample_rate]\<rparr>)))"

definition synthesize :: "io \<Rightarrow> exn + json \<Rightarrow> world \<Rightarrow> response \<times> world" where
  "synthesize io req w =
     (case req of
        Inl e \<Rightarrow> (error_response (str e) 500, w)
      | Inr data \<Rightarrow>
          if \<not> truthy data then (error_response ''Text is required'' 400, w)
          else
            (case py_in ''text'' data of
               Inl e \<Rightarrow> (error_response (str e) 500, w)
             | Inr False \<Rightarrow> (error_response ''Text is required'' 400, w)
             | Inr True \<Rightarrow>
                 (case py_getitem data ''text'' of
                    Inl e \<Rightarrow> (error_response (str e) 500, w)
                  | Inr text \<Rightarrow>
                      (case py_get data ''voice_id'' (JStr ''default'') of
                         Inl e \<Rightarrow> (error_response (str e) 500, w)
                       | Inr voice_id \<Rightarrow>
                           (case py_get data ''speed'' (JFloat 1) of
                              Inl e \<Rightarrow> (error_response (str e) 500, w)
                            | Inr speed \<Rightarrow>
                                (case py_len text of
                                   Inl e \<Rightarrow> (error_response (str e) 500, w)
                                 | Inr l \<Rightarrow>
                                     if 1000 < l
                                     then (error_response
                                             ''Text too long (max 1000 characters)'' 400, w)
                                     else
                                       (case synthesize_speech text voice_id speed w of
                                          (Inl e, w1) \<Rightarrow> (error_response (str e) 500, w1)
                                        | (Inr (audio_data, sample_rate), w1) \<Rightarrow>
                                            store_and_send io audio_data sample_rate w1)))))))"

text \<open>\<^verbatim>\<open>test_connection()\<close>, the handler of \<^verbatim>\<open>POST /test\<close>.\<close>

definition test_connection :: "world \<Rightarrow> response \<times> world" where
  "test_connection w =
     (case synthesize_speech (JStr ''Hello, this is a test.'') (JStr ''default'') (JFloat 1) w of
        (Inr (audio_data, sample_rate), w1) \<Rightarrow>
          (Jsonify [(''status'', JStr ''success''),
                    (''message'', JStr ''TTS test completed successfully''),
                    (''audio_length'', JInt (int (length audio_data))),
                    (''sample_rate'', JInt (int sample_rate))] 200, w1)
      | (Inl e, w1) \<Rightarrow>
          (Jsonify [(''status'', JStr ''error''), (''message'', JStr (str e))] 500, w1))"

section \<open>The microphone test (test_vosk.py)\<close>

text \<open>
  One turn of the \<^verbatim>\<open>while True\<close> loop reads a chunk from the stream and hands it to
  the recognizer. What the recognizer does with a chunk is its own business: it raises,
  or \<^verbatim>\<open>AcceptWaveform\<close> returns true and \<^verbatim>\<open>Result()\<close> holds a \<open>text\<close>, or it returns
  false and \<^verbatim>\<open>PartialResult()\<close> holds a \<open>partial\<close> (\<^const>\<open>None\<close> when the key is
  missing). The loop is driven by what happens at each turn: a chunk is read and
  answered, the read raises, or the user presses Ctrl+C.
\<close>

datatype engine_reply =
    Boundary "string option"
  | No_boundary "string option"
  | Decode_raises exn

datatype turn =
    Read_chunk "8 word list" engine_reply
  | Read_raises exn
  | Keyboard_interrupt

datatype line =
    Model_not_found string
  | Model_loaded
  | Speak_prompt
  | Recognized string
  | Partial string
  | Stopping
  | Error_testing string

datatype loop_end = Waiting | Interrupted | Raised exn

text \<open>\<^verbatim>\<open>if d.get(k): print(...)\<close>: printed when the value is present and not empty.\<close>

fun print_if :: "(string \<Rightarrow> line) \<Rightarrow> string option \<Rightarrow> line list" where
  "print_if f None = []"
| "print_if f (Some s) = (if s = [] then [] else [f s])"

text \<open>
  The loop, over the turns that have happened so far, with the lines printed so far.
  When the turns run out the loop is blocked in \<^verbatim>\<open>stream.read\<close>.
\<close>

fun listen :: "turn list \<Rightarrow> line list \<Rightarrow> line list \<times> loop_end" where
  "listen [] out = (out, Waiting)"
| "listen (Keyboard_interrupt # ts) out = (out, Interrupted)"
| "listen (Read_raises e # ts) out = (out, Raised e)"
| "listen (Read_chunk d (Decode_raises e) # ts) out = (out, Raised e)"
| "listen (Read_chunk d (Boundary t) # ts) out = listen ts (out @ print_if Recognized t)"
| "listen (Read_chunk d (No_boundary p) # ts) out = listen ts (out @ print_if Partial p)"

text \<open>
  \<^verbatim>\<open>test_vosk_model(model_path)\<close>: what has been printed, what was returned (nothing
  while the loop is still running) and whether the stream is open. The recognizer is
  created for 16000 Hz and the stream is read 4096 frames at a time; neither number is
  compared with anything.
\<close>

record mic_env =
  model_exists :: bool
  init_raises :: "exn option"

record run =
  printed :: "line list"
  returned :: "bool option"
  stream_open :: bool

definition test_vosk_model :: "mic_env \<Rightarrow> string \<Rightarrow> turn list \<Rightarrow> run" where
  "test_vosk_model env model_path ts =
     (if \<not> model_exists env
      then \<lparr>printed = [Model_not_found model_path], returned = Some False, stream_open = False\<rparr>
      else
        (case init_raises env of
           Some e \<Rightarrow>
             \<lparr>printed = [Error_testing (str e)], returned = Some False, stream_open = False\<rparr>
         | None \<Rightarrow>
             (case listen ts [Model_loaded, Speak_prompt] of
                (out, Waiting) \<Rightarrow>
                  \<lparr>printed = out, returned = None, stream_open = True\<rparr>
              | (out, Interrupted) \<Rightarrow>
                  \<lparr>printed = out @ [Stopping], returned = Some True, stream_open = False\<rparr>
              | (out, Raised e) \<Rightarrow>
                  \<lparr>printed = out @ [Error_testing (str e)], returned = Some False,
                   stream_open = False\<rparr>)))"

section \<open>Concrete states used below\<close>

text \<open>
  A server whose model is loaded, with a generator that hands out \<open>0, 1, 2, \<dots>\<close> and
  an empty directory of temporary files.
\<close>

definition quiet_world :: world where
  "quiet_world =
     \<lparr>model = Some \<lparr>ident = 0, eval_raises = None\<rparr>, config = JDict [],
      rng = (\<lambda>i. word_of_nat i), tmp_files = [],
      model_pth = Some (Inr (Some \<lparr>ident = 0, eval_raises = None\<rparr>)),
      config_json = Some (Inr (JDict []))\<rparr>"

text \<open>A request during which the temporary file is created and written.\<close>

definition io_ok :: io where
  "io_ok = \<lparr>tmp_error = None, save_error = None\<rparr>"

text \<open>A text of 1001 characters.\<close>

definition long_text :: string where
  "long_text = replicate 1001 CHR ''a''"

text \<open>
  A server whose model file was replaced after loading, one whose model file was removed
  after loading, one whose model file now holds a pickled \<^verbatim>\<open>None\<close>, and one that has
  not loaded anything yet.
\<close>

definition stale_world :: world where
  "stale_world = quiet_world\<lparr>model_pth := Some (Inr (Some \<lparr>ident = 1, eval_raises = None\<rparr>))\<rparr>"

definition orphan_world :: world where
  "orphan_world = quiet_world\<lparr>model_pth := None\<rparr>"

definition unpickled_none_world :: world where
  "unpickled_none_world = quiet_world\<lparr>model_pth := Some (Inr None)\<rparr>"

definition fresh_world :: world where
  "fresh_world = quiet_world\<lparr>model := None, config := JNull\<rparr>"

text \<open>
  A machine on which the model directory exists and the recognizer and the stream can
  be set up, and a chunk of 4096 frames of silence.
\<close>

definition mic_ok :: mic_env where
  "mic_ok = \<lparr>model_exists = True, init_raises = None\<rparr>"

definition silence :: "8 word list" where
  "silence = replicate 8192 0"

section \<open>Properties of the synthesis server\<close>

lemma bit_length_0 [simp]: "bit_length 0 = 0"
  by (subst bit_length.simps) simp

lemma bit_length_1 [simp]: "bit_length (Suc 0) = Suc 0"
  by (subst bit_length.simps) simp

lemma bit_length_numeral [simp]:
  "bit_length (numeral k) = Suc (bit_length (numeral k div 2))"
  by (subst bit_length.simps) simp

lemma hello_samples:
  "int_of_float (fmul (float_of_nat 22050) (fmul (float_of_nat 5) tenth)) = 11025"
  by (simp add: int_of_float_def fmul_def float_of_nat_def tenth_def round53_def Let_def)

lemma empty_samples:
  "int_of_float (fmul (float_of_nat 22050) (fmul (float_of_nat 0) tenth)) = 0"
  by (simp add: int_of_float_def fmul_def float_of_nat_def tenth_def round53_def Let_def)

text \<open>With the model loaded and a text that has a length, the call returns.\<close>

lemma synthesize_speech_loaded:
  assumes "model w \<noteq> None" and "py_len text = Inr l"
  shows "synthesize_speech text voice_id speed w =
           (Inr (map (rng w)
                   [0..<int_of_float (fmul (float_of_nat 22050) (fmul (float_of_nat l) tenth))],
                 22050),
            w\<lparr>rng := \<lambda>i. rng w
                 (int_of_float (fmul (float_of_nat 22050) (fmul (float_of_nat l) tenth)) + i)\<rparr>)"
  using assms by (auto simp: synthesize_speech_def randn_def Let_def)

text \<open>
  C9. With the model loaded, \<open>synthesize_speech("hello", "default", 1.0)\<close> called twice
  in a row succeeds both times, each time with sample rate 22050 and 11025 samples.
\<close>

theorem hello_twice:
  assumes "model w \<noteq> None"
  shows "\<exists>a1 a2.
           fst (synthesize_speech (JStr ''hello'') (JStr ''default'') (JFloat 1) w)
             = Inr (a1, 22050) \<and>
           fst (synthesize_speech (JStr ''hello'') (JStr ''default'') (JFloat 1)
                  (snd (synthesize_speech (JStr ''hello'') (JStr ''default'') (JFloat 1) w)))
             = Inr (a2, 22050) \<and>
           length a1 = 11025 \<and> length a2 = 11025"
proof -
  let ?call = "synthesize_speech (JStr ''hello'') (JStr ''default'') (JFloat 1)"
  have len: "py_len (JStr ''hello'') = Inr 5" by simp
  have first: "?call w = (Inr (map (rng w) [0..<11025], 22050), w\<lparr>rng := \<lambda>i. rng w (11025 + i)\<rparr>)"
    using synthesize_speech_loaded [OF assms len] by (simp only: hello_samples)
  define w1 where "w1 = snd (?call w)"
  have still: "model w1 \<noteq> None"
    using assms by (simp add: w1_def first)
  have second: "fst (?call w1) = Inr (map (rng w1) [0..<11025], 22050)"
    using synthesize_speech_loaded [OF still len] by (simp only: hello_samples fst_conv)
  have "fst (?call w) = Inr (map (rng w) [0..<11025], 22050) \<and>
        fst (?call w1) = Inr (map (rng w1) [0..<11025], 22050) \<and>
        length (map (rng w) [0..<11025]) = 11025 \<and> length (map (rng w1) [0..<11025]) = 11025"
    using first second by simp
  then show ?thesis
    unfolding w1_def by blast
qed

theorem hello_twice_witness:
  "model quiet_world \<noteq> None \<and>
   (\<exists>a1 a2.
      fst (synthesize_speech (JStr ''hello'') (JStr ''default'') (JFloat 1) quiet_world)
        = Inr (a1, 22050) \<and>
      fst (synthesize_speech (JStr ''hello'') (JStr ''default'') (JFloat 1)
             (snd (synthesize_speech (JStr ''hello'') (JStr ''default'') (JFloat 1) quiet_world)))
        = Inr (a2, 22050) \<and>
      length a1 = 11025 \<and> length a2 = 11025)"
proof -
  have h: "model quiet_world \<noteq> None" by (simp add: quiet_world_def)
  show ?thesis using h hello_twice [OF h] by simp
qed

lemma map_upt_eq_hd:
  assumes "map f [0..<n] = map h [0..<n]" and "0 < n"
  shows "f 0 = h 0"
  using assms by (simp add: map_eq_conv)

text \<open>
  C1, as stated, fails: two consecutive calls with the same \<open>(text, voice_id, speed)\<close>
  on a loaded server return different sample data, since the samples come from the
  generator, whose state the first call has advanced.
\<close>

theorem same_request_other_samples:
  "fst (synthesize_speech (JStr ''hello'') (JStr ''default'') (JFloat 1) quiet_world) \<noteq>
   fst (synthesize_speech (JStr ''hello'') (JStr ''default'') (JFloat 1)
          (snd (synthesize_speech (JStr ''hello'') (JStr ''default'') (JFloat 1) quiet_world)))"
proof -
  let ?call = "synthesize_speech (JStr ''hello'') (JStr ''default'') (JFloat 1)"
  let ?g = "\<lambda>i. word_of_nat i :: sample"
  have len: "py_len (JStr ''hello'') = Inr 5" by simp
  have loaded: "model quiet_world \<noteq> None" by (simp add: quiet_world_def)
  have first: "?call quiet_world =
      (Inr (map ?g [0..<11025], 22050), quiet_world\<lparr>rng := \<lambda>i. ?g (11025 + i)\<rparr>)"
    using synthesize_speech_loaded [OF loaded len]
    by (simp only: hello_samples) (simp add: quiet_world_def)
  define w1 where "w1 = quiet_world\<lparr>rng := \<lambda>i. ?g (11025 + i)\<rparr>"
  have still: "model w1 \<noteq> None" by (simp add: w1_def quiet_world_def)
  have rng1: "rng w1 = (\<lambda>i. ?g (11025 + i))" by (simp add: w1_def)
  have "fst (?call w1) = Inr (map (rng w1) [0..<11025], 22050)"
    using synthesize_speech_loaded [OF still len] by (simp only: hello_samples fst_conv)
  then have second: "fst (?call w1) = Inr (map (\<lambda>i. ?g (11025 + i)) [0..<11025], 22050)"
    by (simp only: rng1)
  have e1: "fst (?call quiet_world) = Inr (map ?g [0..<11025], 22050)"
    by (simp only: first fst_conv)
  have e2: "fst (?call (snd (?call quiet_world)))
              = Inr (map (\<lambda>i. ?g (11025 + i)) [0..<11025], 22050)"
    by (simp only: first snd_conv) (simp only: second [unfolded w1_def])
  have neq: "map ?g [0..<11025] \<noteq> map (\<lambda>i. ?g (11025 + i)) [0..<11025]"
  proof
    assume "map ?g [0..<11025] = map (\<lambda>i. ?g (11025 + i)) [0..<11025]"
    then have "?g 0 = ?g (11025 + 0)" by (rule map_upt_eq_hd) simp
    then show False by simp
  qed
  show ?thesis
    unfolding e1 e2 using neq by simp
qed

text \<open>
  C1, amended. On loaded servers two calls with the same text (a string, a list or a
  dict), whatever their voice ids and speeds, both succeed with sample rate 22050 and
  with buffers of one and the same length, \<open>int(22050 * (len(text) * 0.1))\<close>; the sample
  data of each call are the values the generator hands out next, so they are equal
  whenever the generator is in the same state at both calls.
\<close>

theorem audio_shape_from_text:
  assumes "model w \<noteq> None" and "model w' \<noteq> None" and "py_len text = Inr l"
  shows "\<exists>a a'.
           fst (synthesize_speech text voice_id speed w) = Inr (a, 22050) \<and>
           fst (synthesize_speech text voice_id' speed' w') = Inr (a', 22050) \<and>
           length a = int_of_float (fmul (float_of_nat 22050) (fmul (float_of_nat l) tenth)) \<and>
           length a' = length a \<and>
           a = map (rng w) [0..<length a] \<and>
           a' = map (rng w') [0..<length a'] \<and>
           (rng w = rng w' \<longrightarrow> a = a')"
  by (simp add: synthesize_speech_loaded [OF assms(1) assms(3)]
                synthesize_speech_loaded [OF assms(2) assms(3)])

theorem audio_shape_from_text_witness:
  "model quiet_world \<noteq> None \<and> model stale_world \<noteq> None \<and>
   py_len (JStr ''hello'') = Inr 5 \<and> rng quiet_world = rng stale_world \<and>
   quiet_world \<noteq> stale_world \<and>
   (\<exists>a a'.
      fst (synthesize_speech (JStr ''hello'') (JStr ''default'') (JFloat 1) quiet_world)
        = Inr (a, 22050) \<and>
      fst (synthesize_speech (JStr ''hello'') (JStr ''male1'') (JFloat 2) stale_world)
        = Inr (a', 22050) \<and>
      length a = 11025 \<and> length a' = length a \<and> a = a')"
proof -
  have h: "model quiet_world \<noteq> None" by (simp add: quiet_world_def)
  have h': "model stale_world \<noteq> None" by (simp add: stale_world_def quiet_world_def)
  have l: "py_len (JStr ''hello'') = Inr 5" by simp
  have g: "rng quiet_world = rng stale_world" by (simp add: stale_world_def)
  have d: "quiet_world \<noteq> stale_world"
  proof
    assume "quiet_world = stale_world"
    then have "model_pth quiet_world = model_pth stale_world" by (rule arg_cong)
    then show False by (simp add: stale_world_def quiet_world_def)
  qed
  show ?thesis
    using h h' l g d
      audio_shape_from_text [OF h h' l, of "JStr ''default''" "JFloat 1" "JStr ''male1''" "JFloat 2"]
    by (simp only: hello_samples) auto
qed

text \<open>The body of \<^const>\<open>synthesize_speech\<close> reads neither \<open>voice_id\<close> nor \<open>speed\<close>.\<close>

lemma voice_and_speed_unread:
  "synthesize_speech text voice_id speed w = synthesize_speech text voice_id' speed' w"
  by (simp add: synthesize_speech_def)

text \<open>
  C5, as stated, fails: the voice id \<open>robot\<close> is not in the catalog, and synthesis with
  it succeeds on a loaded server.
\<close>

theorem unknown_voice_succeeds:
  "JStr ''robot'' \<notin> set (map voice_id_of voices) \<and>
   fst (synthesize_speech (JStr ''hello'') (JStr ''robot'') (JFloat 1) quiet_world)
     = Inr (map word_of_nat [0..<11025], 22050)"
proof -
  have len: "py_len (JStr ''hello'') = Inr 5" by simp
  have loaded: "model quiet_world \<noteq> None" by (simp add: quiet_world_def)
  have "fst (synthesize_speech (JStr ''hello'') (JStr ''robot'') (JFloat 1) quiet_world)
     = Inr (map word_of_nat [0..<11025], 22050)"
    using synthesize_speech_loaded [OF loaded len]
    by (simp only: hello_samples) (simp add: quiet_world_def)
  moreover have "JStr ''robot'' \<notin> set (map voice_id_of voices)"
    by (simp add: voices_def)
  ultimately show ?thesis by simp
qed

text \<open>
  C5, amended. The voice id is passed through and never read: for every voice id, in the
  catalog or not, \<^const>\<open>synthesize_speech\<close> and the handler of \<^verbatim>\<open>POST /synthesize\<close> do
  exactly what they do for \<open>default\<close>.
\<close>

theorem voice_id_passed_through:
  "synthesize_speech text voice_id speed w = synthesize_speech text (JStr ''default'') speed w \<and>
   synthesize io (Inr (JDict ((''voice_id'', voice_id) # kvs))) w
     = synthesize io (Inr (JDict ((''voice_id'', JStr ''default'') # kvs))) w"
proof
  show "synthesize_speech text voice_id speed w = synthesize_speech text (JStr ''default'') speed w"
    by (rule voice_and_speed_unread)
next
  have "\<And>t s. synthesize_speech t voice_id s w = synthesize_speech t (JStr ''default'') s w"
    by (rule voice_and_speed_unread)
  then show "synthesize io (Inr (JDict ((''voice_id'', voice_id) # kvs))) w
     = synthesize io (Inr (JDict ((''voice_id'', JStr ''default'') # kvs))) w"
    by (simp add: synthesize_def split: option.splits sum.splits)
qed

text \<open>The handler on a body that is a dict holding a \<open>text\<close> that has a length.\<close>

lemma synthesize_dict:
  assumes "map_of kvs ''text'' = Some text" and "py_len text = Inr l"
  shows "synthesize io (Inr (JDict kvs)) w =
           (if 1000 < l then (error_response ''Text too long (max 1000 characters)'' 400, w)
            else (case synthesize_speech text
                         (case map_of kvs ''voice_id'' of Some v \<Rightarrow> v | None \<Rightarrow> JStr ''default'')
                         (case map_of kvs ''speed'' of Some v \<Rightarrow> v | None \<Rightarrow> JFloat 1) w of
                    (Inl e, w1) \<Rightarrow> (error_response (str e) 500, w1)
                  | (Inr (audio_data, sample_rate), w1) \<Rightarrow>
                      store_and_send io audio_data sample_rate w1))"
proof -
  have ne: "kvs \<noteq> []" using assms(1) by auto
  show ?thesis
    using assms ne by (simp add: synthesize_def)
qed

text \<open>
  C2. A request whose \<open>text\<close> is a string of more than 1000 characters is answered
  with status 400 and the too-long error, whatever the state of the server (model loaded
  or not), and the state is left as it was: no sample is drawn, no file is created.
\<close>

theorem too_long_rejected:
  assumes "map_of kvs ''text'' = Some (JStr s)" and "1000 < length s"
  shows "synthesize io (Inr (JDict kvs)) w
           = (Jsonify [(''error'', JStr ''Text too long (max 1000 characters)'')] 400, w)"
  using synthesize_dict [OF assms(1), of "length s" io w] assms(2)
  by (simp add: error_response_def)

lemma length_long_text: "length long_text = 1001"
  by (simp only: long_text_def length_replicate)

theorem too_long_rejected_witness:
  "map_of [(''text'', JStr long_text)] ''text'' = Some (JStr long_text) \<and>
   1000 < length long_text \<and>
   synthesize io_ok (Inr (JDict [(''text'', JStr long_text)])) quiet_world
      = (Jsonify [(''error'', JStr ''Text too long (max 1000 characters)'')] 400, quiet_world) \<and>
   model fresh_world = None \<and>
   synthesize io_ok (Inr (JDict [(''text'', JStr long_text)])) fresh_world
      = (Jsonify [(''error'', JStr ''Text too long (max 1000 characters)'')] 400, fresh_world)"
proof -
  have k: "map_of [(''text'', JStr long_text)] ''text'' = Some (JStr long_text)" by simp
  have l: "1000 < length long_text" by (simp add: length_long_text)
  have n: "model fresh_world = None" by (simp add: fresh_world_def)
  show ?thesis
    using k l n too_long_rejected [OF k l, of io_ok quiet_world]
      too_long_rejected [OF k l, of io_ok fresh_world]
    by simp
qed

lemma store_and_send_ok:
  assumes "tmp_error io = None" and "save_error io = None"
  shows "store_and_send io a r w
           = (Send_file (length (tmp_files w)), w\<lparr>tmp_files := tmp_files w @ [Wav a r]\<rparr>)"
  using assms by (simp add: store_and_send_def Let_def)

lemma fst_store_and_send:
  "fst (store_and_send io a r w) \<noteq> error_response m 400"
  by (simp add: store_and_send_def Let_def error_response_def split: option.splits)

text \<open>On a dict body the missing-text answer is given exactly when the key is absent.\<close>

lemma text_required_iff:
  "fst (synthesize io (Inr (JDict kvs)) w) = error_response ''Text is required'' 400
     \<longleftrightarrow> map_of kvs ''text'' = None"
proof (cases "map_of kvs ''text''")
  case None
  then show ?thesis by (simp add: synthesize_def)
next
  case (Some t)
  then have ne: "kvs \<noteq> []" by auto
  have "fst (synthesize io (Inr (JDict kvs)) w) \<noteq> error_response ''Text is required'' 400"
    using Some ne
    by (simp add: synthesize_def error_response_def store_and_send_def Let_def
             split: option.split sum.split prod.split)
  with Some show ?thesis by simp
qed

text \<open>
  C10. A body whose \<open>text\<close> is the empty string, on a loaded server:
  \<^const>\<open>synthesize_speech\<close> returns an empty buffer at 22050 and changes nothing, the
  handler answers neither with the missing-text error nor with the too-long error, and
  when the temporary file can be created and written it sends a file holding zero
  samples at 22050. On any dict body the missing-text answer is given exactly when the
  key is absent.
\<close>

theorem empty_text_accepted:
  assumes "model w \<noteq> None" and "map_of kvs ''text'' = Some (JStr [])"
  shows "synthesize_speech (JStr []) voice_id speed w = (Inr ([], 22050), w) \<and>
         fst (synthesize io (Inr (JDict kvs)) w) \<noteq> error_response ''Text is required'' 400 \<and>
         fst (synthesize io (Inr (JDict kvs)) w)
           \<noteq> error_response ''Text too long (max 1000 characters)'' 400 \<and>
         (tmp_error io = None \<and> save_error io = None \<longrightarrow>
            synthesize io (Inr (JDict kvs)) w
              = (Send_file (length (tmp_files w)),
                 w\<lparr>tmp_files := tmp_files w @ [Wav [] 22050]\<rparr>)) \<and>
         ((fst (synthesize io (Inr (JDict kvs')) w') = error_response ''Text is required'' 400)
            = (map_of kvs' ''text'' = None))"
proof -
  have len: "py_len (JStr []) = Inr 0" by simp
  have call: "\<And>v s. synthesize_speech (JStr []) v s w = (Inr ([], 22050), w)"
    using synthesize_speech_loaded [OF assms(1) len] by (simp only: empty_samples) simp
  have handler: "synthesize io (Inr (JDict kvs)) w = store_and_send io [] 22050 w"
    using synthesize_dict [OF assms(2) len, of io w] by (simp add: call)
  show ?thesis
    by (simp add: call handler fst_store_and_send store_and_send_ok text_required_iff)
qed

theorem empty_text_accepted_witness:
  "model quiet_world \<noteq> None \<and> map_of [(''text'', JStr [])] ''text'' = Some (JStr []) \<and>
   tmp_error io_ok = None \<and> save_error io_ok = None \<and>
   synthesize_speech (JStr []) (JStr ''default'') (JFloat 1) quiet_world
     = (Inr ([], 22050), quiet_world) \<and>
   synthesize io_ok (Inr (JDict [(''text'', JStr [])])) quiet_world
     = (Send_file 0, quiet_world\<lparr>tmp_files := [Wav [] 22050]\<rparr>)"
proof -
  have h: "model quiet_world \<noteq> None" by (simp add: quiet_world_def)
  have k: "map_of [(''text'', JStr [])] ''text'' = Some (JStr [])" by simp
  have t: "tmp_files quiet_world = []" by (simp add: quiet_world_def)
  show ?thesis
    using h k empty_text_accepted [OF h k, of "JStr ''default''" "JFloat 1" io_ok]
    by (simp add: io_ok_def t)
qed

text \<open>The three ways through the handler.\<close>

lemma synthesize_cases:
  "(\<exists>m st. synthesize io req w = (error_response m st, w)) \<or>
   (\<exists>t v s e w1. synthesize_speech t v s w = (Inl e, w1) \<and>
       synthesize io req w = (error_response (str e) 500, w1)) \<or>
   (\<exists>t v s a sr w1. synthesize_speech t v s w = (Inr (a, sr), w1) \<and>
       synthesize io req w = store_and_send io a sr w1)"
  unfolding synthesize_def
  by (simp split: sum.split bool.split prod.split) blast

lemma synthesize_speech_frame:
  assumes "synthesize_speech t v s w = (r, w1)"
  shows "tmp_files w1 = tmp_files w \<and> model w1 = model w \<and> config w1 = config w \<and>
         model_pth w1 = model_pth w \<and> config_json w1 = config_json w \<and>
         (\<forall>a sr. r = Inr (a, sr) \<longrightarrow> sr = 22050)"
  using assms
  by (auto simp: synthesize_speech_def randn_def Let_def split: option.splits sum.splits)

lemma store_and_send_keeps:
  "take (length (tmp_files w)) (tmp_files (snd (store_and_send io a sr w))) = tmp_files w"
  by (simp add: store_and_send_def Let_def split: option.splits)

lemma store_and_send_file:
  assumes "fst (store_and_send io a sr w) = Send_file n"
  shows "n = length (tmp_files w) \<and>
         tmp_files (snd (store_and_send io a sr w)) = tmp_files w @ [Wav a sr]"
  using assms
  by (auto simp: store_and_send_def Let_def error_response_def split: option.splits)

text \<open>
  C6, as stated, fails: after a request that was answered with the audio file, the
  temporary file of that request is still in the directory.
\<close>

theorem temp_file_left_behind:
  "tmp_files quiet_world = [] \<and>
   fst (synthesize io_ok (Inr (JDict [(''text'', JStr ''hello'')])) quiet_world) = Send_file 0 \<and>
   tmp_files (snd (synthesize io_ok (Inr (JDict [(''text'', JStr ''hello'')])) quiet_world))
     = [Wav (map word_of_nat [0..<11025]) 22050]"
proof -
  have len: "py_len (JStr ''hello'') = Inr 5" by simp
  have loaded: "model quiet_world \<noteq> None" by (simp add: quiet_world_def)
  have k: "map_of [(''text'', JStr ''hello'')] ''text'' = Some (JStr ''hello'')" by simp
  have t: "tmp_files quiet_world = []" by (simp add: quiet_world_def)
  have call: "\<And>v s. synthesize_speech (JStr ''hello'') v s quiet_world =
      (Inr (map word_of_nat [0..<11025], 22050),
       quiet_world\<lparr>rng := \<lambda>i. rng quiet_world (11025 + i)\<rparr>)"
    using synthesize_speech_loaded [OF loaded len]
    by (simp only: hello_samples) (simp add: quiet_world_def)
  have "synthesize io_ok (Inr (JDict [(''text'', JStr ''hello'')])) quiet_world
          = store_and_send io_ok (map word_of_nat [0..<11025]) 22050
              (quiet_world\<lparr>rng := \<lambda>i. rng quiet_world (11025 + i)\<rparr>)"
    using synthesize_dict [OF k len, of io_ok quiet_world] by (simp add: call)
  then show ?thesis
    by (simp add: store_and_send_ok io_ok_def t)
qed

text \<open>
  C6, amended. The handler never removes a temporary file: the files that were there
  before a request are there after it; a request answered with the audio file has added
  exactly that file, holding the samples at 22050, and it stays; a request answered with
  status 400 leaves the whole state as it was.
\<close>

theorem temp_files_never_removed:
  "take (length (tmp_files w)) (tmp_files (snd (synthesize io req w))) = tmp_files w \<and>
   (\<forall>n. fst (synthesize io req w) = Send_file n \<longrightarrow>
          n = length (tmp_files w) \<and>
          (\<exists>a. tmp_files (snd (synthesize io req w)) = tmp_files w @ [Wav a 22050])) \<and>
   (\<forall>m. fst (synthesize io req w) = error_response m 400 \<longrightarrow> snd (synthesize io req w) = w)"
proof -
  consider
    (early) m st where "synthesize io req w = (error_response m st, w)"
  | (failed) t v s e w1 where "synthesize_speech t v s w = (Inl e, w1)"
      and "synthesize io req w = (error_response (str e) 500, w1)"
  | (stored) t v s a sr w1 where "synthesize_speech t v s w = (Inr (a, sr), w1)"
      and "synthesize io req w = store_and_send io a sr w1"
    using synthesize_cases [of io req w] by blast
  then show ?thesis
  proof cases
    case early
    then show ?thesis by (simp add: error_response_def)
  next
    case failed
    from synthesize_speech_frame [OF failed(1)] have "tmp_files w1 = tmp_files w" by simp
    then show ?thesis by (simp add: failed(2) error_response_def)
  next
    case stored
    from synthesize_speech_frame [OF stored(1)]
    have same: "tmp_files w1 = tmp_files w" and rate: "sr = 22050" by simp_all
    have keep: "take (length (tmp_files w)) (tmp_files (snd (store_and_send io a sr w1))) = tmp_files w"
      using store_and_send_keeps [of w1 io a sr] by (simp add: same)
    have sent_file: "\<And>n. fst (store_and_send io a sr w1) = Send_file n \<Longrightarrow>
                  n = length (tmp_files w) \<and>
                  tmp_files (snd (store_and_send io a sr w1)) = tmp_files w @ [Wav a 22050]"
      using store_and_send_file [of io a sr w1] by (simp add: same rate)
    show ?thesis
      unfolding stored(2) using keep sent_file fst_store_and_send [of io a sr w1] by blast
  qed
qed

theorem temp_files_never_removed_witness:
  "fst (synthesize io_ok (Inr (JDict [(''text'', JStr [])])) quiet_world) = Send_file 0 \<and>
   0 = length (tmp_files quiet_world) \<and>
   (\<exists>a. tmp_files (snd (synthesize io_ok (Inr (JDict [(''text'', JStr [])])) quiet_world))
           = tmp_files quiet_world @ [Wav a 22050]) \<and>
   fst (synthesize io_ok (Inr (JDict [(''text'', JStr long_text)])) quiet_world)
     = error_response ''Text too long (max 1000 characters)'' 400 \<and>
   snd (synthesize io_ok (Inr (JDict [(''text'', JStr long_text)])) quiet_world) = quiet_world"
proof -
  have h: "model quiet_world \<noteq> None" by (simp add: quiet_world_def)
  have k: "map_of [(''text'', JStr [])] ''text'' = Some (JStr [])" by simp
  have t: "tmp_files quiet_world = []" by (simp add: quiet_world_def)
  have len: "py_len (JStr []) = Inr 0" by simp
  have call: "\<And>v s. synthesize_speech (JStr []) v s quiet_world = (Inr ([], 22050), quiet_world)"
    using synthesize_speech_loaded [OF h len] by (simp only: empty_samples) simp
  have sent: "fst (synthesize io_ok (Inr (JDict [(''text'', JStr [])])) quiet_world) = Send_file 0"
    using synthesize_dict [OF k len, of io_ok quiet_world]
    by (simp add: call store_and_send_ok io_ok_def t)
  have k': "map_of [(''text'', JStr long_text)] ''text'' = Some (JStr long_text)" by simp
  have len': "py_len (JStr long_text) = Inr 1001" by (simp add: length_long_text)
  have refused: "fst (synthesize io_ok (Inr (JDict [(''text'', JStr long_text)])) quiet_world)
                   = error_response ''Text too long (max 1000 characters)'' 400"
    using synthesize_dict [OF k' len', of io_ok quiet_world] by simp
  show ?thesis
    using sent t refused
      temp_files_never_removed [of quiet_world io_ok "Inr (JDict [(''text'', JStr [])])"]
      temp_files_never_removed [of quiet_world io_ok "Inr (JDict [(''text'', JStr long_text)])"]
    by auto
qed

subsection \<open>Loading the model\<close>

text \<open>
  C4, as stated, fails: with a model loaded, a second \<^const>\<open>load_model\<close> reads the file
  again and replaces the loaded model by what the file now holds; and when the file has
  gone in the meantime, the second call raises instead of returning success.
\<close>

theorem second_load_reads_again:
  "model stale_world = Some \<lparr>ident = 0, eval_raises = None\<rparr> \<and>
   load_model stale_world
     = (Inr (), stale_world\<lparr>model := Some \<lparr>ident = 1, eval_raises = None\<rparr>\<rparr>) \<and>
   model (snd (load_model stale_world)) \<noteq> model stale_world \<and>
   model orphan_world \<noteq> None \<and>
   fst (load_model orphan_world)
     = Inl (FileNotFoundError ''Model files not found. Please run setup_kokoro.py first.'')"
  by (simp add: stale_world_def orphan_world_def quiet_world_def load_model_def)

lemma load_model_success:
  "fst (load_model w) = Inr () \<longleftrightarrow>
     (\<exists>obj c. model_pth w = Some (Inr (Some obj)) \<and> config_json w = Some (Inr c) \<and>
              eval_raises obj = None)"
  by (auto simp: load_model_def Let_def split: option.splits sum.splits)

lemma load_model_files:
  "model_pth (snd (load_model w)) = model_pth w \<and>
   config_json (snd (load_model w)) = config_json w \<and>
   rng (snd (load_model w)) = rng w \<and> tmp_files (snd (load_model w)) = tmp_files w"
  by (auto simp: load_model_def Let_def split: option.splits sum.splits)

text \<open>
  C4, amended. \<^const>\<open>load_model\<close> does not look at the globals: whether it succeeds
  depends on the two files alone, so a call after a failed load tries again exactly as a
  first call does; when both files can be read it assigns to \<open>model\<close> and \<open>config\<close>
  what \<^verbatim>\<open>torch.load\<close> and \<^verbatim>\<open>json.load\<close> returned, loaded or not; and a second call
  right after a successful one succeeds and leaves the state as the first call left it.
\<close>

theorem load_model_reads_every_time:
  "(model_pth w = model_pth w' \<and> config_json w = config_json w' \<longrightarrow>
      fst (load_model w) = fst (load_model w')) \<and>
   (\<forall>loaded c. model_pth w = Some (Inr loaded) \<and> config_json w = Some (Inr c) \<longrightarrow>
      model (snd (load_model w)) = loaded \<and> config (snd (load_model w)) = c) \<and>
   (fst (load_model w) = Inr () \<longrightarrow>
      load_model (snd (load_model w)) = (Inr (), snd (load_model w)))"
  by (auto simp: load_model_def Let_def split: option.splits sum.splits)

theorem load_model_reads_every_time_witness:
  "model_pth fresh_world = model_pth quiet_world \<and>
   config_json fresh_world = config_json quiet_world \<and>
   fst (load_model fresh_world) = fst (load_model quiet_world) \<and>
   model_pth fresh_world = Some (Inr (Some \<lparr>ident = 0, eval_raises = None\<rparr>)) \<and>
   config_json fresh_world = Some (Inr (JDict [])) \<and>
   model (snd (load_model fresh_world)) = Some \<lparr>ident = 0, eval_raises = None\<rparr> \<and>
   config (snd (load_model fresh_world)) = JDict [] \<and>
   fst (load_model fresh_world) = Inr () \<and>
   load_model (snd (load_model fresh_world)) = (Inr (), snd (load_model fresh_world)) \<and>
   model unpickled_none_world \<noteq> None \<and>
   model_pth unpickled_none_world = Some (Inr None) \<and>
   config_json unpickled_none_world = Some (Inr (JDict [])) \<and>
   model (snd (load_model unpickled_none_world)) = None"
proof -
  have f: "model_pth fresh_world = Some (Inr (Some \<lparr>ident = 0, eval_raises = None\<rparr>))"
          "config_json fresh_world = Some (Inr (JDict []))"
          "model_pth quiet_world = Some (Inr (Some \<lparr>ident = 0, eval_raises = None\<rparr>))"
          "config_json quiet_world = Some (Inr (JDict []))"
    by (simp_all add: fresh_world_def quiet_world_def)
  have u: "model unpickled_none_world \<noteq> None"
          "model_pth unpickled_none_world = Some (Inr None)"
          "config_json unpickled_none_world = Some (Inr (JDict []))"
    by (simp_all add: unpickled_none_world_def quiet_world_def)
  have ok: "fst (load_model fresh_world) = Inr ()"
    by (simp add: load_model_def f)
  show ?thesis
    using f u ok load_model_reads_every_time [of fresh_world quiet_world]
      load_model_reads_every_time [of unpickled_none_world unpickled_none_world]
    by simp
qed

section \<open>Properties of the microphone test\<close>

lemma length_silence: "length silence = 8192"
  by (simp only: silence_def length_replicate)


lemma listen_partials:
  "listen (map (\<lambda>c. Read_chunk (fst c) (No_boundary (snd c))) cs) out
     = (out @ concat (map (\<lambda>c. print_if Partial (snd c)) cs), Waiting)"
  by (induction cs arbitrary: out) simp_all

text \<open>
  C7, as stated, fails: two chunks in a row without a boundary and with the same partial
  text print the same partial line twice.
\<close>

theorem same_partial_printed_twice:
  "test_vosk_model mic_ok ''vosk_models/vosk-model-en-us-0.22''
     [Read_chunk silence (No_boundary (Some ''hello'')),
      Read_chunk silence (No_boundary (Some ''hello''))]
   = \<lparr>printed = [Model_loaded, Speak_prompt, Partial ''hello'', Partial ''hello''],
      returned = None, stream_open = True\<rparr>"
  by (simp add: test_vosk_model_def mic_ok_def)

text \<open>
  C7, amended. On a chunk without a boundary the loop prints a partial line exactly when
  the partial text is present and not empty, whatever was printed before; over a run of
  such chunks it prints every non-empty partial text, in order.
\<close>

theorem partial_printed_when_not_empty:
  "listen [Read_chunk d (No_boundary (Some s))] out
     = (if s = [] then out else out @ [Partial s], Waiting) \<and>
   listen [Read_chunk d (No_boundary None)] out = (out, Waiting) \<and>
   listen (map (\<lambda>c. Read_chunk (fst c) (No_boundary (snd c))) cs) out
     = (out @ concat (map (\<lambda>c. print_if Partial (snd c)) cs), Waiting)"
  by (simp add: listen_partials)

theorem partial_printed_when_not_empty_witness:
  "listen [Read_chunk silence (No_boundary (Some ''hello''))] [Partial ''hello'']
     = ([Partial ''hello'', Partial ''hello''], Waiting) \<and>
   listen [Read_chunk silence (No_boundary (Some []))] [Partial ''hello'']
     = ([Partial ''hello''], Waiting)"
  using partial_printed_when_not_empty [of silence "''hello''" "[Partial ''hello'']"]
        partial_printed_when_not_empty [of silence "[]" "[Partial ''hello'']"]
  by simp




text \<open>The loop ends with an exception only when the read or the recognizer raised it.\<close>

lemma listen_raised:
  "listen ts out = (out', Raised e) \<Longrightarrow>
     Read_raises e \<in> set ts \<or> (\<exists>d. Read_chunk d (Decode_raises e) \<in> set ts)"
  by (induction ts out rule: listen.induct) auto

end
